theory Spec2Isabelle
  imports Complex_Main
begin

section \<open>JavaScript values, exceptions and the runtime's built-ins\<close>

text \<open>
  The program is TypeScript run by Deno: the types of the DTO file are erased, and the
  payload of \<^verbatim>\<open>res.json()\<close> is whatever JSON the storefront sent. The values the
  program handles are therefore modelled as JavaScript values: the JSON values, the value
  \<^verbatim>\<open>undefined\<close> that reading an absent property gives, and the \<^verbatim>\<open>Date\<close> objects
  the program builds (a time value in milliseconds, or none for an invalid date).
  An object is the association list of its own properties; a key is looked up with
  \<open>map_of\<close>.
\<close>

datatype jsval =
    JUndefined
  | JNull
  | JBool bool
  | JNum real
  | JStr string
  | JDate "int option"
  | JArr "jsval list"
  | JObj "(string \<times> jsval) list"

datatype js_error = TypeError | SyntaxError | OtherError string

text \<open>An expression either throws (\<open>Inl\<close>) or has a value (\<open>Inr\<close>).\<close>

type_synonym 'a outcome = "js_error + 'a"

definition and_then :: "'a outcome \<Rightarrow> ('a \<Rightarrow> 'b outcome) \<Rightarrow> 'b outcome" where
  "and_then m f = (case m of Inl e \<Rightarrow> Inl e | Inr v \<Rightarrow> f v)"

text \<open>
  The built-ins of the runtime that the program calls and that are no code of the
  repository are taken as a parameter: the time value of \<^verbatim>\<open>new Date(v)\<close>, the string
  conversion of a template literal for numbers and objects, the comparison
  \<^verbatim>\<open>v > 0\<close> for a value that is no array length, and whether \<^verbatim>\<open>new URL(s)\<close>
  succeeds (what zod's \<^verbatim>\<open>z.string().url()\<close> tests).
\<close>

record js_runtime =
  rt_newDate :: "jsval \<Rightarrow> (int option) outcome"
  rt_toString :: "jsval \<Rightarrow> string outcome"
  rt_greaterThanZero :: "jsval \<Rightarrow> bool outcome"
  rt_newURL :: "string \<Rightarrow> bool"

text \<open>
  \<^verbatim>\<open>v.k\<close> for the property names the program reads (\<^verbatim>\<open>data\<close>, \<^verbatim>\<open>Catalog\<close>,
  \<^verbatim>\<open>searchStore\<close>, \<^verbatim>\<open>elements\<close>, \<^verbatim>\<open>title\<close>, \<^verbatim>\<open>description\<close>,
  \<^verbatim>\<open>productSlug\<close>, \<^verbatim>\<open>promotions\<close>, \<^verbatim>\<open>promotionalOffers\<close>,
  \<^verbatim>\<open>upcomingPromotionalOffers\<close>, \<^verbatim>\<open>startDate\<close>, \<^verbatim>\<open>endDate\<close>): reading a property
  of \<^verbatim>\<open>undefined\<close> or \<^verbatim>\<open>null\<close> throws a TypeError; no primitive, array or Date has
  a property of one of these names, so there the value is \<^verbatim>\<open>undefined\<close>.
\<close>

definition get_prop :: "jsval \<Rightarrow> string \<Rightarrow> jsval outcome" where
  "get_prop v k =
     (case v of
        JUndefined \<Rightarrow> Inl TypeError
      | JNull \<Rightarrow> Inl TypeError
      | JObj kvs \<Rightarrow> Inr (case map_of kvs k of None \<Rightarrow> JUndefined | Some w \<Rightarrow> w)
      | _ \<Rightarrow> Inr JUndefined)"

text \<open>
  \<^verbatim>\<open>v[0]\<close>: the first element of an array, \<^verbatim>\<open>undefined\<close> when the array is empty;
  the first character of a string; the property \<^verbatim>\<open>"0"\<close> of an object.
\<close>

definition index0 :: "jsval \<Rightarrow> jsval outcome" where
  "index0 v =
     (case v of
        JUndefined \<Rightarrow> Inl TypeError
      | JNull \<Rightarrow> Inl TypeError
      | JArr xs \<Rightarrow> Inr (case xs of [] \<Rightarrow> JUndefined | x # _ \<Rightarrow> x)
      | JStr s \<Rightarrow> Inr (case s of [] \<Rightarrow> JUndefined | c # _ \<Rightarrow> JStr [c])
      | JObj kvs \<Rightarrow> Inr (case map_of kvs ''0'' of None \<Rightarrow> JUndefined | Some w \<Rightarrow> w)
      | _ \<Rightarrow> Inr JUndefined)"

text \<open>
  \<^verbatim>\<open>v.length > 0\<close>: the length of an array or of a string; on an object the property
  \<^verbatim>\<open>length\<close> compared by the runtime; \<^verbatim>\<open>undefined > 0\<close> is false.
\<close>

definition length_gt_zero :: "js_runtime \<Rightarrow> jsval \<Rightarrow> bool outcome" where
  "length_gt_zero rt v =
     (case v of
        JUndefined \<Rightarrow> Inl TypeError
      | JNull \<Rightarrow> Inl TypeError
      | JArr xs \<Rightarrow> Inr (length xs > 0)
      | JStr s \<Rightarrow> Inr (length s > 0)
      | JObj kvs \<Rightarrow>
          (case map_of kvs ''length'' of None \<Rightarrow> Inr False | Some w \<Rightarrow> rt_greaterThanZero rt w)
      | _ \<Rightarrow> Inr False)"

text \<open>The string a template literal \<^verbatim>\<open>${v}\<close> interpolates.\<close>

definition interpolate :: "js_runtime \<Rightarrow> jsval \<Rightarrow> string outcome" where
  "interpolate rt v =
     (case v of
        JStr s \<Rightarrow> Inr s
      | JUndefined \<Rightarrow> Inr ''undefined''
      | JNull \<Rightarrow> Inr ''null''
      | JBool b \<Rightarrow> Inr (if b then ''true'' else ''false'')
      | _ \<Rightarrow> rt_toString rt v)"

text \<open>\<^verbatim>\<open>new Date(v)\<close>.\<close>

definition new_Date :: "js_runtime \<Rightarrow> jsval \<Rightarrow> jsval outcome" where
  "new_Date rt v = and_then (rt_newDate rt v) (\<lambda>t. Inr (JDate t))"

text \<open>Whether a string is truthy: only the empty string is not.\<close>

definition truthy_string :: "string \<Rightarrow> bool" where
  "truthy_string s = (s \<noteq> [])"

text \<open>
  \<^verbatim>\<open>xs.map(f)\<close>: only an array has the method; the callback runs on the elements in
  order, and the first exception it throws ends the call.
\<close>

fun map_outcome :: "('a \<Rightarrow> 'b outcome) \<Rightarrow> 'a list \<Rightarrow> ('b list) outcome" where
  "map_outcome f [] = Inr []"
| "map_outcome f (x # xs) =
     (case f x of
        Inl e \<Rightarrow> Inl e
      | Inr y \<Rightarrow> (case map_outcome f xs of Inl e \<Rightarrow> Inl e | Inr ys \<Rightarrow> Inr (y # ys)))"

definition array_map :: "jsval \<Rightarrow> (jsval \<Rightarrow> 'b outcome) \<Rightarrow> ('b list) outcome" where
  "array_map v f = (case v of JArr xs \<Rightarrow> map_outcome f xs | _ \<Rightarrow> Inl TypeError)"

section \<open>The optionals library: Result\<close>

datatype ('t, 'e) Result = Ok 't | Err 'e

fun isOk :: "('t, 'e) Result \<Rightarrow> bool" where
  "isOk (Ok _) = True"
| "isOk (Err _) = False"

text \<open>\<^verbatim>\<open>unwrap\<close> throws on an \<^verbatim>\<open>Err\<close>, \<^verbatim>\<open>unwrapErr\<close> on an \<^verbatim>\<open>Ok\<close>.\<close>

fun unwrap :: "('t, 'e) Result \<Rightarrow> 't outcome" where
  "unwrap (Ok v) = Inr v"
| "unwrap (Err _) = Inl (OtherError ''unwrap on Err'')"

fun unwrapErr :: "('t, 'e) Result \<Rightarrow> 'e outcome" where
  "unwrapErr (Err e) = Inr e"
| "unwrapErr (Ok _) = Inl (OtherError ''unwrapErr on Ok'')"

text \<open>\<^verbatim>\<open>Option.unwrap\<close> throws on \<^verbatim>\<open>None\<close>.\<close>

fun unwrapOption :: "'a option \<Rightarrow> 'a outcome" where
  "unwrapOption (Some v) = Inr v"
| "unwrapOption None = Inl (OtherError ''unwrap on None'')"

section \<open>Promotion and its validating factory\<close>

text \<open>
  \<^verbatim>\<open>PromotionProps\<close> is the object literal handed to \<^verbatim>\<open>Promotion.New\<close>. Its
  TypeScript type promises strings and dates, but the values come from the payload, so
  each field is a JavaScript value.
\<close>

record PromotionProps =
  title :: jsval
  description :: jsval
  url :: jsval
  startDate :: jsval
  endDate :: jsval

text \<open>
  The private constructor assigns the props to the instance; \<open>NewPromotion\<close> is
  \<^verbatim>\<open>new Promotion(props)\<close>.
\<close>

datatype Promotion = NewPromotion (props_of: PromotionProps)

text \<open>
  \<^verbatim>\<open>promotionScheme.safeParse\<close>: zod checks the fields in the order of the schema and
  collects one issue per failing field. An issue is the path of the field and its code.
\<close>

datatype zod_issue_code = invalid_type | invalid_string | invalid_date

type_synonym zod_issue = "string \<times> zod_issue_code"

definition z_string :: "string \<Rightarrow> jsval \<Rightarrow> zod_issue list" where
  "z_string path v = (case v of JStr _ \<Rightarrow> [] | _ \<Rightarrow> [(path, invalid_type)])"

definition z_string_url :: "js_runtime \<Rightarrow> string \<Rightarrow> jsval \<Rightarrow> zod_issue list" where
  "z_string_url rt path v =
     (case v of
        JStr s \<Rightarrow> (if rt_newURL rt s then [] else [(path, invalid_string)])
      | _ \<Rightarrow> [(path, invalid_type)])"

definition z_date :: "string \<Rightarrow> jsval \<Rightarrow> zod_issue list" where
  "z_date path v =
     (case v of
        JDate t \<Rightarrow> (case t of None \<Rightarrow> [(path, invalid_date)] | Some _ \<Rightarrow> [])
      | _ \<Rightarrow> [(path, invalid_type)])"

definition promotionScheme :: "js_runtime \<Rightarrow> PromotionProps \<Rightarrow> zod_issue list" where
  "promotionScheme rt props =
     z_string ''title'' (title props)
     @ z_string ''description'' (description props)
     @ z_string_url rt ''url'' (url props)
     @ z_date ''startDate'' (startDate props)
     @ z_date ''endDate'' (endDate props)"

text \<open>
  \<^verbatim>\<open>Promotion.New\<close>. The payload of the \<^verbatim>\<open>Err\<close> is the JSON text of the ZodError in
  the source; here it is the list of its issues.
\<close>

definition Promotion_New ::
  "js_runtime \<Rightarrow> PromotionProps \<Rightarrow> (Promotion, zod_issue list) Result" where
  "Promotion_New rt props =
     (let validation = promotionScheme rt props
      in if validation \<noteq> [] then Err validation else Ok (NewPromotion props))"

section \<open>The callback of checkPromotions: one raw element\<close>

definition seasonal_sale_url :: string where
  "seasonal_sale_url = ''https://store.epicgames.com/pt-BR/sales-and-specials/holiday-sale''"

definition product_page_url :: "string \<Rightarrow> string" where
  "product_page_url slug = ''https://store.epicgames.com/pt-BR/p/'' @ slug"

text \<open>
  The condition of the source is \<^verbatim>\<open>promo.productSlug === "[]" || ""\<close>: the strict
  comparison with \<^verbatim>\<open>"[]"\<close>, or else the constant \<^verbatim>\<open>""\<close> tested for truthiness.
\<close>

definition resolveUrl :: "js_runtime \<Rightarrow> jsval \<Rightarrow> string outcome" where
  "resolveUrl rt promo =
     and_then (get_prop promo ''productSlug'') (\<lambda>slug.
       if slug = JStr ''[]'' \<or> truthy_string ''''
       then Inr seasonal_sale_url
       else and_then (get_prop promo ''productSlug'') (\<lambda>slug'.
            and_then (interpolate rt slug') (\<lambda>s. Inr (product_page_url s))))"

text \<open>
  \<^verbatim>\<open>new Date(offers[0].promotionalOffers[0].<field>)\<close>, for \<^verbatim>\<open>offers\<close> one of the
  two lists of \<^verbatim>\<open>promo.promotions\<close>.
\<close>

definition firstOfferDate :: "js_runtime \<Rightarrow> jsval \<Rightarrow> string \<Rightarrow> jsval outcome" where
  "firstOfferDate rt offers field =
     and_then (index0 offers) (\<lambda>group.
     and_then (get_prop group ''promotionalOffers'') (\<lambda>inner.
     and_then (index0 inner) (\<lambda>offer.
     and_then (get_prop offer field) (\<lambda>d. new_Date rt d))))"

text \<open>
  The expression of \<^verbatim>\<open>startDate\<close> and of \<^verbatim>\<open>endDate\<close> in the source, which differ
  in the field they read only. The source reads \<^verbatim>\<open>promo.promotions\<close> and its list
  again in the branch it takes; a read of a property of a parsed JSON value has no effect
  and gives the same value, so the value read for the condition is used.
\<close>

definition resolveDate :: "js_runtime \<Rightarrow> jsval \<Rightarrow> string \<Rightarrow> jsval outcome" where
  "resolveDate rt promo field =
     and_then (get_prop promo ''promotions'') (\<lambda>ps.
     and_then (get_prop ps ''promotionalOffers'') (\<lambda>current.
     and_then (length_gt_zero rt current) (\<lambda>active.
       if active then firstOfferDate rt current field
       else and_then (get_prop ps ''upcomingPromotionalOffers'') (\<lambda>upcoming.
            firstOfferDate rt upcoming field))))"

text \<open>
  The callback of \<^verbatim>\<open>elements.map\<close>: the fields of the object literal are evaluated in
  the order written, then \<^verbatim>\<open>Promotion.New\<close> validates them.
\<close>

definition toPromotion ::
  "js_runtime \<Rightarrow> jsval \<Rightarrow> ((Promotion, zod_issue list) Result) outcome" where
  "toPromotion rt promo =
     and_then (get_prop promo ''description'') (\<lambda>d.
     and_then (get_prop promo ''title'') (\<lambda>t.
     and_then (resolveUrl rt promo) (\<lambda>u.
     and_then (resolveDate rt promo ''startDate'') (\<lambda>s.
     and_then (resolveDate rt promo ''endDate'') (\<lambda>e.
       Inr (Promotion_New rt
         \<lparr>title = t, description = d, url = JStr u, startDate = s, endDate = e\<rparr>))))))"

section \<open>checkPromotions and handlePromotions\<close>

text \<open>
  What the program prints is the only state it has: each \<^verbatim>\<open>console.log\<close> appends
  one entry. The entry of \<^verbatim>\<open>handlePromotions\<close> is the output of a cycle; the
  others are diagnostics.
\<close>

record PromoOutput =
  updatedAt :: int
  promotions :: "Promotion list"

datatype log_entry =
    LogHeaders "(string \<times> string) list"
  | LogNoValidPromotions "zod_issue list list"
  | LogSomethingGoesWrong js_error
  | LogOutput PromoOutput

type_synonym console = "log_entry list"

text \<open>
  What \<^verbatim>\<open>fetch\<close> does is the input of a cycle: it rejects, or resolves to a response
  with its \<^verbatim>\<open>ok\<close> flag, its headers and what \<^verbatim>\<open>res.json()\<close> gives (an exception
  when the body is no JSON).
\<close>

record Response =
  ok :: bool
  headers :: "(string \<times> string) list"
  json :: "jsval outcome"

datatype fetch_result = FetchRejects js_error | FetchResolves Response


text \<open>\<^verbatim>\<open>const { data } = body\<close> followed by \<^verbatim>\<open>data.Catalog.searchStore.elements\<close>.\<close>

definition searchStoreElements :: "jsval \<Rightarrow> jsval outcome" where
  "searchStoreElements body =
     and_then (get_prop body ''data'') (\<lambda>data.
     and_then (get_prop data ''Catalog'') (\<lambda>catalog.
     and_then (get_prop catalog ''searchStore'') (\<lambda>store.
     get_prop store ''elements'')))"

text \<open>
  Lines 60 to 104 of main.ts, from \<^verbatim>\<open>elements.map\<close> to the return: the results of
  the elements, the valid ones, and either \<^verbatim>\<open>None\<close> with the rejections logged or
  \<^verbatim>\<open>Some\<close> of the valid promotions.
\<close>

definition normalize ::
  "js_runtime \<Rightarrow> jsval \<Rightarrow> console \<Rightarrow> (Promotion list option) outcome \<times> console" where
  "normalize rt elements con =
     (case array_map elements (toPromotion rt) of
        Inl e \<Rightarrow> (Inl e, con)
      | Inr promotionsResults \<Rightarrow>
          (let validPromoResults = filter isOk promotionsResults
           in if length validPromoResults = 0
              then (case map_outcome unwrapErr promotionsResults of
                      Inl e \<Rightarrow> (Inl e, con)
                    | Inr invalidPromos \<Rightarrow>
                        (Inr None, con @ [LogNoValidPromotions invalidPromos]))
              else (case map_outcome unwrap validPromoResults of
                      Inl e \<Rightarrow> (Inl e, con)
                    | Inr validPromos \<Rightarrow> (Inr (Some validPromos), con))))"

text \<open>The block of the \<^verbatim>\<open>try\<close>.\<close>

definition tryBody ::
  "js_runtime \<Rightarrow> fetch_result \<Rightarrow> console \<Rightarrow> (Promotion list option) outcome \<times> console" where
  "tryBody rt fetched con =
     (case fetched of
        FetchRejects e \<Rightarrow> (Inl e, con)
      | FetchResolves res \<Rightarrow>
          (if \<not> ok res then (Inr None, con @ [LogHeaders (headers res)])
           else (case json res of
                   Inl e \<Rightarrow> (Inl e, con)
                 | Inr body \<Rightarrow>
                     (case searchStoreElements body of
                        Inl e \<Rightarrow> (Inl e, con)
                      | Inr elements \<Rightarrow> normalize rt elements con))))"

text \<open>\<^verbatim>\<open>checkPromotions\<close>: the block of the \<^verbatim>\<open>try\<close> and its \<^verbatim>\<open>catch\<close>.\<close>

definition checkPromotions ::
  "js_runtime \<Rightarrow> fetch_result \<Rightarrow> console \<Rightarrow> (Promotion list option) outcome \<times> console" where
  "checkPromotions rt fetched con =
     (case tryBody rt fetched con of
        (Inl error, con') \<Rightarrow> (Inr None, con' @ [LogSomethingGoesWrong error])
      | (Inr result, con') \<Rightarrow> (Inr result, con'))"

text \<open>
  \<^verbatim>\<open>handlePromotions\<close>, one cycle; \<open>now\<close> is the time \<^verbatim>\<open>new Date()\<close> reads.
\<close>

definition handlePromotions ::
  "js_runtime \<Rightarrow> int \<Rightarrow> fetch_result \<Rightarrow> console \<Rightarrow> unit outcome \<times> console" where
  "handlePromotions rt now fetched con =
     (case checkPromotions rt fetched con of
        (Inl e, con') \<Rightarrow> (Inl e, con')
      | (Inr promosOption, con') \<Rightarrow>
          (if promosOption = None then (Inr (), con')
           else (case unwrapOption promosOption of
                   Inl e \<Rightarrow> (Inl e, con')
                 | Inr ps \<Rightarrow>
                     (Inr (), con' @ [LogOutput \<lparr>updatedAt = now, promotions = ps\<rparr>]))))"

text \<open>The outputs among the entries of a console.\<close>

fun emitted :: "console \<Rightarrow> PromoOutput list" where
  "emitted [] = []"
| "emitted (LogOutput out # con) = out # emitted con"
| "emitted (_ # con) = emitted con"

section \<open>Notions for stating the properties\<close>

text \<open>The values of the \<^verbatim>\<open>Ok\<close> results of a list, and the errors of its \<^verbatim>\<open>Err\<close> results.\<close>

fun okValues :: "('t, 'e) Result list \<Rightarrow> 't list" where
  "okValues [] = []"
| "okValues (Ok v # rs) = v # okValues rs"
| "okValues (Err _ # rs) = okValues rs"

fun errValues :: "('t, 'e) Result list \<Rightarrow> 'e list" where
  "errValues [] = []"
| "errValues (Err e # rs) = e # errValues rs"
| "errValues (Ok _ # rs) = errValues rs"

text \<open>
  The promotion of a raw element, when it has one: none when the callback throws on it
  or \<^verbatim>\<open>Promotion.New\<close> rejects it.
\<close>

definition promotionOf :: "js_runtime \<Rightarrow> jsval \<Rightarrow> Promotion option" where
  "promotionOf rt promo =
     (case toPromotion rt promo of Inr (Ok p) \<Rightarrow> Some p | _ \<Rightarrow> None)"

text \<open>
  The invariant of a promotion in the words of the specification: title and description
  are strings, the url is a string that parses as an absolute URL, and the two dates are
  valid timestamps.
\<close>

definition is_string :: "jsval \<Rightarrow> bool" where
  "is_string v = (case v of JStr _ \<Rightarrow> True | _ \<Rightarrow> False)"

definition is_absolute_url :: "js_runtime \<Rightarrow> jsval \<Rightarrow> bool" where
  "is_absolute_url rt v = (case v of JStr s \<Rightarrow> rt_newURL rt s | _ \<Rightarrow> False)"

definition is_valid_timestamp :: "jsval \<Rightarrow> bool" where
  "is_valid_timestamp v = (case v of JDate (Some _) \<Rightarrow> True | _ \<Rightarrow> False)"

definition promotion_invariant :: "js_runtime \<Rightarrow> PromotionProps \<Rightarrow> bool" where
  "promotion_invariant rt props =
     (is_string (title props) \<and> is_string (description props)
      \<and> is_absolute_url rt (url props)
      \<and> is_valid_timestamp (startDate props) \<and> is_valid_timestamp (endDate props))"

section \<open>Concrete inputs\<close>

text \<open>
  A runtime for the concrete inputs below: it knows the two dates of the specification's
  example, prints every object as \<^verbatim>\<open>[object Object]\<close> and accepts the URLs that
  start with \<^verbatim>\<open>https://\<close>.
\<close>

definition example_runtime :: js_runtime where
  "example_runtime =
     \<lparr>rt_newDate = (\<lambda>v. case v of
          JStr s \<Rightarrow>
            Inr (if s = ''2024-01-01T00:00:00Z'' then Some 1704067200000
                 else if s = ''2024-01-08T00:00:00Z'' then Some 1704672000000
                 else None)
        | JDate t \<Rightarrow> Inr t
        | _ \<Rightarrow> Inr None),
      rt_toString = (\<lambda>v. Inr ''[object Object]''),
      rt_greaterThanZero = (\<lambda>v. Inr False),
      rt_newURL = (\<lambda>s. take 8 s = ''https://'')\<rparr>"

text \<open>One offer with its window, and the group that holds it.\<close>

definition example_offer :: jsval where
  "example_offer =
     JObj [(''startDate'', JStr ''2024-01-01T00:00:00Z''),
           (''endDate'', JStr ''2024-01-08T00:00:00Z'')]"

definition example_group :: jsval where
  "example_group = JObj [(''promotionalOffers'', JArr [example_offer])]"

text \<open>The \<^verbatim>\<open>promotions\<close> of an element with an active window, and with an upcoming one only.\<close>

definition example_active :: jsval where
  "example_active =
     JObj [(''promotionalOffers'', JArr [example_group]),
           (''upcomingPromotionalOffers'', JArr [])]"

definition example_upcoming :: jsval where
  "example_upcoming =
     JObj [(''promotionalOffers'', JArr []),
           (''upcomingPromotionalOffers'', JArr [example_group])]"

text \<open>The minimal valid element of the specification, with an active window.\<close>

definition example_element :: jsval where
  "example_element =
     JObj [(''title'', JStr ''A''), (''description'', JStr ''B''),
           (''productSlug'', JStr ''abc''), (''promotions'', example_active)]"

definition example_promotion :: Promotion where
  "example_promotion =
     NewPromotion \<lparr>title = JStr ''A'', description = JStr ''B'',
       url = JStr ''https://store.epicgames.com/pt-BR/p/abc'',
       startDate = JDate (Some 1704067200000), endDate = JDate (Some 1704672000000)\<rparr>"

text \<open>The same element with an upcoming window only.\<close>

definition example_upcoming_element :: jsval where
  "example_upcoming_element =
     JObj [(''title'', JStr ''A''), (''description'', JStr ''B''),
           (''productSlug'', JStr ''abc''), (''promotions'', example_upcoming)]"

text \<open>The same element without its title.\<close>

definition example_untitled_element :: jsval where
  "example_untitled_element =
     JObj [(''description'', JStr ''B''), (''productSlug'', JStr ''abc''),
           (''promotions'', example_active)]"

text \<open>An element whose two lists of offers are empty.\<close>

definition example_no_window_element :: jsval where
  "example_no_window_element =
     JObj [(''title'', JStr ''C''), (''description'', JStr ''D''),
           (''productSlug'', JStr ''xyz''),
           (''promotions'', JObj [(''promotionalOffers'', JArr []),
                                  (''upcomingPromotionalOffers'', JArr [])])]"

text \<open>A body that holds the given elements, and the response with status 200 that has it.\<close>

definition example_body :: "jsval list \<Rightarrow> jsval" where
  "example_body es =
     JObj [(''data'', JObj [(''Catalog'', JObj [(''searchStore'',
       JObj [(''elements'', JArr es)])])])]"

definition example_response :: "jsval list \<Rightarrow> fetch_result" where
  "example_response es =
     FetchResolves \<lparr>ok = True, headers = [], json = Inr (example_body es)\<rparr>"

section \<open>Lemmas on the results of a batch\<close>

lemma map_outcome_unwrap_valid:
  "map_outcome unwrap (filter isOk rs) = Inr (okValues rs)"
  by (induction rs rule: okValues.induct) simp_all

lemma map_outcome_unwrapErr_invalid:
  "filter isOk rs = [] \<Longrightarrow> map_outcome unwrapErr rs = Inr (errValues rs)"
  by (induction rs rule: errValues.induct) simp_all

lemma okValues_Nil_iff: "okValues rs = [] \<longleftrightarrow> filter isOk rs = []"
  by (induction rs rule: okValues.induct) simp_all




lemma okValues_map_filter:
  "map_outcome (toPromotion rt) es = Inr rs \<Longrightarrow> okValues rs = List.map_filter (promotionOf rt) es"
proof (induction es arbitrary: rs)
  case Nil
  then show ?case by simp
next
  case (Cons x xs)
  from Cons.prems obtain r rs' where r: "toPromotion rt x = Inr r"
    and rs': "map_outcome (toPromotion rt) xs = Inr rs'" and eq: "rs = r # rs'"
    by (auto split: sum.splits)
  from Cons.IH [OF rs'] have ih: "okValues rs' = List.map_filter (promotionOf rt) xs" .
  have px: "promotionOf rt x = (case r of Ok p \<Rightarrow> Some p | Err _ \<Rightarrow> None)"
    by (simp add: promotionOf_def r)
  show ?case
    by (cases r) (simp_all add: eq ih px)
qed

lemma normalize_array:
  "normalize rt (JArr es) con =
     (case map_outcome (toPromotion rt) es of
        Inl e \<Rightarrow> (Inl e, con)
      | Inr rs \<Rightarrow>
          if filter isOk rs = [] then (Inr None, con @ [LogNoValidPromotions (errValues rs)])
          else (Inr (Some (okValues rs)), con))"
  by (simp add: normalize_def array_map_def Let_def map_outcome_unwrap_valid
      map_outcome_unwrapErr_invalid split: sum.splits)

lemma normalize_not_array:
  "\<forall>es. elements \<noteq> JArr es \<Longrightarrow> normalize rt elements con = (Inl TypeError, con)"
  by (cases elements) (simp_all add: normalize_def array_map_def)

lemma checkPromotions_on_elements:
  "ok res \<Longrightarrow> json res = Inr body \<Longrightarrow> searchStoreElements body = Inr elements \<Longrightarrow>
   checkPromotions rt (FetchResolves res) con =
     (case normalize rt elements con of
        (Inl e, con') \<Rightarrow> (Inr None, con' @ [LogSomethingGoesWrong e])
      | (Inr r, con') \<Rightarrow> (Inr r, con'))"
  by (simp add: checkPromotions_def tryBody_def)

lemma checkPromotions_Some:
  assumes "fst (checkPromotions rt fetched con) = Inr (Some ps)"
  shows "\<exists>res body es rs. fetched = FetchResolves res \<and> ok res \<and> json res = Inr body
           \<and> searchStoreElements body = Inr (JArr es)
           \<and> map_outcome (toPromotion rt) es = Inr rs
           \<and> filter isOk rs \<noteq> [] \<and> ps = okValues rs
           \<and> snd (checkPromotions rt fetched con) = con"
proof -
  from assms obtain res where f: "fetched = FetchResolves res" and ok: "ok res"
    by (cases fetched) (auto simp: checkPromotions_def tryBody_def split: if_splits)
  from assms f ok obtain body where b: "json res = Inr body"
    by (cases "json res") (auto simp: checkPromotions_def tryBody_def)
  from assms f ok b obtain elements where e: "searchStoreElements body = Inr elements"
    by (cases "searchStoreElements body") (auto simp: checkPromotions_def tryBody_def)
  note cp = checkPromotions_on_elements [OF ok b e, of rt con]
  have "\<exists>es. elements = JArr es"
  proof (rule ccontr)
    assume "\<not> (\<exists>es. elements = JArr es)"
    then have "normalize rt elements con = (Inl TypeError, con)"
      by (simp add: normalize_not_array)
    with assms f cp show False by simp
  qed
  then obtain es where es: "elements = JArr es" ..
  from assms f cp es obtain rs where rs: "map_outcome (toPromotion rt) es = Inr rs"
    by (cases "map_outcome (toPromotion rt) es") (auto simp: normalize_array)
  from assms f cp es rs have ne: "filter isOk rs \<noteq> []" and ps: "ps = okValues rs"
    and c: "snd (checkPromotions rt fetched con) = con"
    by (auto simp: normalize_array split: if_splits)
  from f ok b e es rs ne ps c show ?thesis by blast
qed

lemma checkPromotions_returns: "\<exists>r. fst (checkPromotions rt fetched con) = Inr r"
  by (cases "tryBody rt fetched con"; cases "fst (tryBody rt fetched con)")
     (auto simp: checkPromotions_def)


lemma handlePromotions_cases:
  "handlePromotions rt now fetched con =
     (case fst (checkPromotions rt fetched con) of
        Inr (Some ps) \<Rightarrow> (Inr (), snd (checkPromotions rt fetched con)
                            @ [LogOutput \<lparr>updatedAt = now, promotions = ps\<rparr>])
      | _ \<Rightarrow> (Inr (), snd (checkPromotions rt fetched con)))"
  using checkPromotions_returns [of rt fetched con]
  by (cases "checkPromotions rt fetched con")
     (auto simp: handlePromotions_def split: sum.splits option.splits)

lemma emitted_append: "emitted (c1 @ c2) = emitted c1 @ emitted c2"
  by (induction c1 rule: emitted.induct) simp_all

section \<open>The concrete inputs evaluated\<close>

lemmas eval_defs = and_then_def get_prop_def index0_def length_gt_zero_def interpolate_def
  new_Date_def truthy_string_def array_map_def z_string_def z_string_url_def z_date_def
  promotionScheme_def Promotion_New_def seasonal_sale_url_def product_page_url_def
  resolveUrl_def firstOfferDate_def resolveDate_def toPromotion_def searchStoreElements_def
  normalize_def tryBody_def checkPromotions_def handlePromotions_def
  example_runtime_def example_offer_def example_group_def example_active_def
  example_upcoming_def example_element_def example_promotion_def
  example_upcoming_element_def example_untitled_element_def example_no_window_element_def
  example_body_def example_response_def

lemma example_element_valid:
  "toPromotion example_runtime example_element = Inr (Ok example_promotion)"
  by (simp add: eval_defs)

lemma example_upcoming_element_valid:
  "toPromotion example_runtime example_upcoming_element = Inr (Ok example_promotion)"
  by (simp add: eval_defs)

lemma example_untitled_element_rejected:
  "toPromotion example_runtime example_untitled_element
     = Inr (Err [(''title'', invalid_type)])"
  by (simp add: eval_defs)

lemma example_no_window_element_throws:
  "toPromotion example_runtime example_no_window_element = Inl TypeError"
  by (simp add: eval_defs)

lemma example_body_elements: "searchStoreElements (example_body es) = Inr (JArr es)"
  by (simp add: example_body_def searchStoreElements_def and_then_def get_prop_def)

section \<open>Window resolution when both lists are empty\<close>

text \<open>
  With both lists empty the source reads \<^verbatim>\<open>upcomingPromotionalOffers[0]\<close>, which is
  \<^verbatim>\<open>undefined\<close>, and then a property of it: the callback throws a TypeError.
\<close>

lemma no_window_throws:
  assumes "get_prop promo ''promotions'' = Inr ps"
    and "get_prop ps ''promotionalOffers'' = Inr (JArr [])"
    and "get_prop ps ''upcomingPromotionalOffers'' = Inr (JArr [])"
  shows "resolveDate rt promo field = Inl TypeError"
  using assms by (simp add: resolveDate_def firstOfferDate_def and_then_def index0_def
      length_gt_zero_def get_prop_def)

text \<open>
  Claim C1: an element whose \<^verbatim>\<open>promotionalOffers\<close> and
  \<^verbatim>\<open>upcomingPromotionalOffers\<close> are both empty is rejected without a read of an
  absent entry, and the other elements of the batch keep their outcomes. The code does
  not do this: the valid element alone gives its promotion, and the same element followed
  by one with two empty lists gives \<^verbatim>\<open>None\<close>, the TypeError of the second element
  having ended the whole \<^verbatim>\<open>map\<close>.
\<close>

theorem no_window_element_aborts_batch:
  "checkPromotions example_runtime (example_response [example_element]) []
     = (Inr (Some [example_promotion]), [])
   \<and> checkPromotions example_runtime
        (example_response [example_element, example_no_window_element]) []
     = (Inr None, [LogSomethingGoesWrong TypeError])"
  by (simp add: eval_defs)

section \<open>URL resolution\<close>

text \<open>
  What the condition of the source amounts to: the constant \<^verbatim>\<open>""\<close> is never truthy,
  so the fallback URL is chosen for the placeholder \<^verbatim>\<open>"[]"\<close> only.
\<close>

lemma resolveUrl_code:
  "get_prop promo ''productSlug'' = Inr slug \<Longrightarrow>
   resolveUrl rt promo =
     (if slug = JStr ''[]'' then Inr seasonal_sale_url
      else and_then (interpolate rt slug) (\<lambda>s. Inr (product_page_url s)))"
  by (simp add: resolveUrl_def and_then_def truthy_string_def)

text \<open>
  Claim C2: the resolved URL is the seasonal-sale fallback exactly when
  \<^verbatim>\<open>productSlug\<close> is absent, empty or the placeholder \<^verbatim>\<open>"[]"\<close>, and the product
  page of the slug otherwise. The code gives the fallback for the placeholder only: an
  empty slug gives the product page of the empty slug, and an absent one the product page
  of \<^verbatim>\<open>undefined\<close>.
\<close>

theorem empty_slug_gets_product_page_url:
  "resolveUrl rt (JObj [(''productSlug'', JStr '''')])
     = Inr ''https://store.epicgames.com/pt-BR/p/''
   \<and> resolveUrl rt (JObj []) = Inr ''https://store.epicgames.com/pt-BR/p/undefined''
   \<and> resolveUrl rt (JObj [(''productSlug'', JStr ''[]'')])
     = Inr ''https://store.epicgames.com/pt-BR/sales-and-specials/holiday-sale''"
  by (simp add: resolveUrl_def and_then_def get_prop_def interpolate_def truthy_string_def
      product_page_url_def seasonal_sale_url_def)

section \<open>The result of a cycle is never an empty list\<close>

text \<open>
  Claim C9: when \<^verbatim>\<open>checkPromotions\<close> returns \<^verbatim>\<open>Some(promotions)\<close>, the list is
  not empty; the empty result is \<^verbatim>\<open>None\<close>.
\<close>

theorem checkPromotions_Some_nonempty:
  "fst (checkPromotions rt fetched con) = Inr (Some ps) \<Longrightarrow> ps \<noteq> [] \<and> length ps \<ge> 1"
proof -
  assume a: "fst (checkPromotions rt fetched con) = Inr (Some ps)"
  from checkPromotions_Some [OF a]
  obtain rs :: "(Promotion, zod_issue list) Result list"
    where "filter isOk rs \<noteq> []" "ps = okValues rs"
    by blast
  then have "ps \<noteq> []" by (simp add: okValues_Nil_iff)
  then show ?thesis by (cases ps) simp_all
qed

theorem checkPromotions_Some_nonempty_witness:
  "fst (checkPromotions example_runtime (example_response [example_element]) [])
     = Inr (Some [example_promotion])
   \<and> [example_promotion] \<noteq> [] \<and> length [example_promotion] \<ge> 1"
  using checkPromotions_Some_nonempty
    [of example_runtime "example_response [example_element]" "[]" "[example_promotion]"]
  by (simp add: eval_defs)

section \<open>The order of the promotions\<close>

text \<open>
  Claim C10: the list of valid promotions holds the promotions of the valid elements in
  the order in which those elements stand in the input: it is the list of the elements
  with the elements that have no promotion left out and every other one replaced by its
  promotion.
\<close>

theorem normalize_preserves_order:
  "fst (normalize rt (JArr es) con) = Inr (Some ps) \<Longrightarrow>
   ps = List.map_filter (promotionOf rt) es"
  by (cases "map_outcome (toPromotion rt) es")
     (auto simp: normalize_array okValues_map_filter split: if_splits)

theorem normalize_preserves_order_witness:
  "fst (normalize example_runtime
     (JArr [example_element, example_untitled_element, example_upcoming_element]) [])
     = Inr (Some [example_promotion, example_promotion])
   \<and> [example_promotion, example_promotion]
     = List.map_filter (promotionOf example_runtime)
         [example_element, example_untitled_element, example_upcoming_element]"
  using normalize_preserves_order
    [of example_runtime "[example_element, example_untitled_element, example_upcoming_element]"
        "[]" "[example_promotion, example_promotion]"]
  by (simp add: eval_defs)

section \<open>Failures of a cycle\<close>

lemma no_promotion_no_valid:
  "map_outcome (toPromotion rt) es = Inr rs \<Longrightarrow> list_all (\<lambda>x. promotionOf rt x = None) es \<Longrightarrow>
   filter isOk rs = []"
proof -
  assume m: "map_outcome (toPromotion rt) es = Inr rs"
    and n: "list_all (\<lambda>x. promotionOf rt x = None) es"
  from n have "List.map_filter (promotionOf rt) es = []"
    by (induction es) simp_all
  with okValues_map_filter [OF m] show ?thesis by (simp add: okValues_Nil_iff)
qed

lemma checkPromotions_no_promotion:
  assumes "searchStoreElements body = Inr (JArr es)"
    and "list_all (\<lambda>x. promotionOf rt x = None) es"
  shows "fst (checkPromotions rt (FetchResolves \<lparr>ok = True, headers = h, json = Inr body\<rparr>) con)
           = Inr None"
proof (cases "map_outcome (toPromotion rt) es")
  case (Inl e)
  with assms(1) show ?thesis
    by (simp add: checkPromotions_on_elements normalize_array)
next
  case (Inr rs)
  from no_promotion_no_valid [OF Inr assms(2)] have "filter isOk rs = []" .
  with Inr assms(1) show ?thesis
    by (simp add: checkPromotions_on_elements normalize_array)
qed









section \<open>What Promotion.New accepts\<close>

lemma promotionScheme_Nil_iff:
  "promotionScheme rt props = [] \<longleftrightarrow> promotion_invariant rt props"
  by (simp add: promotionScheme_def promotion_invariant_def z_string_def z_string_url_def
      z_date_def is_string_def is_absolute_url_def is_valid_timestamp_def
      split: jsval.splits option.splits)

lemma Promotion_New_Ok:
  "Promotion_New rt props = Ok p \<Longrightarrow> p = NewPromotion props \<and> promotion_invariant rt props"
  by (auto simp: Promotion_New_def Let_def promotionScheme_Nil_iff split: if_splits)

section \<open>Window resolution\<close>

text \<open>The dates of a promotion are the two dates resolved for its element.\<close>

lemma toPromotion_dates:
  "toPromotion rt promo = Inr (Ok p) \<Longrightarrow>
   resolveDate rt promo ''startDate'' = Inr (startDate (props_of p))
   \<and> resolveDate rt promo ''endDate'' = Inr (endDate (props_of p))"
  by (auto simp: toPromotion_def and_then_def split: sum.splits dest!: Promotion_New_Ok)

text \<open>
  Claim C4: for an element whose \<^verbatim>\<open>promotionalOffers\<close> is a non-empty list with
  first group \<open>g\<close>, the resolved start and end dates are the dates of the first offer
  \<open>w\<close> of \<open>g\<close>, whatever \<^verbatim>\<open>upcomingPromotionalOffers\<close> is; for an element whose
  \<^verbatim>\<open>promotionalOffers\<close> is empty and whose \<^verbatim>\<open>upcomingPromotionalOffers\<close> is a
  non-empty list with first group \<open>g\<close>, they are the dates of the first offer of that
  group. The dates are the \<^verbatim>\<open>Date\<close> objects built from the two fields of the offer,
  and they are the dates of the promotion of the element when it has one.
\<close>

theorem resolveDate_first_window:
  assumes "get_prop promo ''promotions'' = Inr ps"
    and "get_prop g ''promotionalOffers'' = Inr (JArr (w # ws))"
    and "get_prop w ''startDate'' = Inr ds" and "get_prop w ''endDate'' = Inr de"
  shows "(get_prop ps ''promotionalOffers'' = Inr (JArr (g # gs)) \<longrightarrow>
            resolveDate rt promo ''startDate'' = new_Date rt ds
            \<and> resolveDate rt promo ''endDate'' = new_Date rt de)
       \<and> (get_prop ps ''promotionalOffers'' = Inr (JArr [])
            \<and> get_prop ps ''upcomingPromotionalOffers'' = Inr (JArr (g # gs)) \<longrightarrow>
            resolveDate rt promo ''startDate'' = new_Date rt ds
            \<and> resolveDate rt promo ''endDate'' = new_Date rt de)
       \<and> (toPromotion rt promo = Inr (Ok p) \<longrightarrow>
            resolveDate rt promo ''startDate'' = Inr (startDate (props_of p))
            \<and> resolveDate rt promo ''endDate'' = Inr (endDate (props_of p)))"
proof -
  have first: "firstOfferDate rt (JArr (g # gs)) ''startDate'' = new_Date rt ds"
    "firstOfferDate rt (JArr (g # gs)) ''endDate'' = new_Date rt de"
    using assms(2-4) by (simp_all add: firstOfferDate_def and_then_def index0_def)
  have active: "length_gt_zero rt (JArr (g # gs)) = Inr True"
    and none: "length_gt_zero rt (JArr []) = Inr False"
    by (simp_all add: length_gt_zero_def)
  have window: "(get_prop ps ''promotionalOffers'' = Inr (JArr (g # gs)) \<longrightarrow>
            resolveDate rt promo ''startDate'' = new_Date rt ds
            \<and> resolveDate rt promo ''endDate'' = new_Date rt de)
       \<and> (get_prop ps ''promotionalOffers'' = Inr (JArr [])
            \<and> get_prop ps ''upcomingPromotionalOffers'' = Inr (JArr (g # gs)) \<longrightarrow>
            resolveDate rt promo ''startDate'' = new_Date rt ds
            \<and> resolveDate rt promo ''endDate'' = new_Date rt de)"
    using assms(1) first active none by (simp add: resolveDate_def and_then_def)
  with toPromotion_dates [of rt promo p] show ?thesis by blast
qed

theorem resolveDate_first_window_witness:
  "get_prop example_element ''promotions'' = Inr example_active
   \<and> get_prop example_upcoming_element ''promotions'' = Inr example_upcoming
   \<and> get_prop example_group ''promotionalOffers'' = Inr (JArr [example_offer])
   \<and> get_prop example_offer ''startDate'' = Inr (JStr ''2024-01-01T00:00:00Z'')
   \<and> get_prop example_offer ''endDate'' = Inr (JStr ''2024-01-08T00:00:00Z'')
   \<and> get_prop example_active ''promotionalOffers'' = Inr (JArr [example_group])
   \<and> resolveDate example_runtime example_element ''startDate''
       = new_Date example_runtime (JStr ''2024-01-01T00:00:00Z'')
   \<and> resolveDate example_runtime example_element ''endDate''
       = new_Date example_runtime (JStr ''2024-01-08T00:00:00Z'')
   \<and> get_prop example_upcoming ''promotionalOffers'' = Inr (JArr [])
   \<and> get_prop example_upcoming ''upcomingPromotionalOffers'' = Inr (JArr [example_group])
   \<and> resolveDate example_runtime example_upcoming_element ''startDate''
       = new_Date example_runtime (JStr ''2024-01-01T00:00:00Z'')
   \<and> resolveDate example_runtime example_upcoming_element ''endDate''
       = new_Date example_runtime (JStr ''2024-01-08T00:00:00Z'')
   \<and> toPromotion example_runtime example_element = Inr (Ok example_promotion)
   \<and> resolveDate example_runtime example_element ''startDate''
       = Inr (JDate (Some 1704067200000))
   \<and> resolveDate example_runtime example_element ''endDate''
       = Inr (JDate (Some 1704672000000))"
proof -
  have p1: "get_prop example_element ''promotions'' = Inr example_active"
    by (simp add: get_prop_def example_element_def)
  have p2: "get_prop example_upcoming_element ''promotions'' = Inr example_upcoming"
    by (simp add: get_prop_def example_upcoming_element_def)
  have g: "get_prop example_group ''promotionalOffers'' = Inr (JArr [example_offer])"
    by (simp add: get_prop_def example_group_def)
  have s: "get_prop example_offer ''startDate'' = Inr (JStr ''2024-01-01T00:00:00Z'')"
    and e: "get_prop example_offer ''endDate'' = Inr (JStr ''2024-01-08T00:00:00Z'')"
    by (simp_all add: get_prop_def example_offer_def)
  have a: "get_prop example_active ''promotionalOffers'' = Inr (JArr [example_group])"
    by (simp add: get_prop_def example_active_def)
  have u: "get_prop example_upcoming ''promotionalOffers'' = Inr (JArr [])"
    "get_prop example_upcoming ''upcomingPromotionalOffers'' = Inr (JArr [example_group])"
    by (simp_all add: get_prop_def example_upcoming_def)
  have d: "startDate (props_of example_promotion) = JDate (Some 1704067200000)"
    "endDate (props_of example_promotion) = JDate (Some 1704672000000)"
    by (simp_all add: example_promotion_def)
  have nd: "new_Date example_runtime (JStr ''2024-01-01T00:00:00Z'')
      = Inr (JDate (Some 1704067200000))"
    "new_Date example_runtime (JStr ''2024-01-08T00:00:00Z'')
      = Inr (JDate (Some 1704672000000))"
    by (simp_all add: new_Date_def and_then_def example_runtime_def)
  from resolveDate_first_window [OF p1 g s e, of "[]" example_runtime example_promotion] a
    resolveDate_first_window [OF p2 g s e, of "[]" example_runtime example_promotion] u
    example_element_valid
  show ?thesis
    by (simp add: p1 p2 g s e d nd)
qed

section \<open>A batch with one valid and one rejected element\<close>

text \<open>
  Claim C5 as stated: a batch of one valid and one invalid element gives one promotion
  and one rejection record that is kept observable for diagnostics. On the batch of the
  valid element and the element without a title the code returns the one promotion and
  prints nothing: the rejection is in neither the result nor the console, and the cycle
  prints its output only.
\<close>

theorem mixed_batch_rejection_discarded:
  "toPromotion example_runtime example_element = Inr (Ok example_promotion)
   \<and> toPromotion example_runtime example_untitled_element
       = Inr (Err [(''title'', invalid_type)])
   \<and> checkPromotions example_runtime
        (example_response [example_element, example_untitled_element]) []
       = (Inr (Some [example_promotion]), [])
   \<and> handlePromotions example_runtime 0
        (example_response [example_element, example_untitled_element]) []
       = (Inr (), [LogOutput \<lparr>updatedAt = 0, promotions = [example_promotion]\<rparr>])"
  by (simp add: eval_defs)

text \<open>
  Claim C5 as amended: for a batch of exactly one valid element and one element that
  \<^verbatim>\<open>Promotion.New\<close> rejects, in either order, the results of the elements hold one
  promotion and one rejection, and the code returns \<^verbatim>\<open>Some\<close> of the one promotion
  and leaves the console as it was: the rejection is not logged and not returned.
\<close>

theorem mixed_batch_one_promotion:
  assumes "toPromotion rt a = Inr (Ok p)" and "toPromotion rt b = Inr (Err issues)"
    and "es = [a, b] \<or> es = [b, a]"
    and "searchStoreElements body = Inr (JArr es)"
  shows "(\<exists>rs. map_outcome (toPromotion rt) es = Inr rs
            \<and> okValues rs = [p] \<and> errValues rs = [issues])
       \<and> normalize rt (JArr es) con = (Inr (Some [p]), con)
       \<and> checkPromotions rt (FetchResolves \<lparr>ok = True, headers = h, json = Inr body\<rparr>) con
           = (Inr (Some [p]), con)"
proof -
  from assms(3) have "map_outcome (toPromotion rt) es = Inr [Ok p, Err issues]
      \<or> map_outcome (toPromotion rt) es = Inr [Err issues, Ok p]"
    using assms(1,2) by auto
  then obtain rs where rs: "map_outcome (toPromotion rt) es = Inr rs"
    and oks: "okValues rs = [p]" and errs: "errValues rs = [issues]"
    and ne: "filter isOk rs \<noteq> []"
    by auto
  from rs oks ne have n: "normalize rt (JArr es) con = (Inr (Some [p]), con)"
    by (simp add: normalize_array)
  from n assms(4) have "checkPromotions rt
      (FetchResolves \<lparr>ok = True, headers = h, json = Inr body\<rparr>) con = (Inr (Some [p]), con)"
    by (simp add: checkPromotions_on_elements)
  with rs oks errs n show ?thesis by blast
qed

theorem mixed_batch_one_promotion_witness:
  "toPromotion example_runtime example_element = Inr (Ok example_promotion)
   \<and> toPromotion example_runtime example_untitled_element
       = Inr (Err [(''title'', invalid_type)])
   \<and> searchStoreElements (example_body [example_untitled_element, example_element])
       = Inr (JArr [example_untitled_element, example_element])
   \<and> (\<exists>rs. map_outcome (toPromotion example_runtime)
              [example_untitled_element, example_element] = Inr rs
            \<and> okValues rs = [example_promotion]
            \<and> errValues rs = [[(''title'', invalid_type)]])
   \<and> normalize example_runtime (JArr [example_untitled_element, example_element]) []
       = (Inr (Some [example_promotion]), [])
   \<and> checkPromotions example_runtime
        (FetchResolves \<lparr>ok = True, headers = [],
           json = Inr (example_body [example_untitled_element, example_element])\<rparr>) []
       = (Inr (Some [example_promotion]), [])"
  using mixed_batch_one_promotion [OF example_element_valid example_untitled_element_rejected,
      of "[example_untitled_element, example_element]"
         "example_body [example_untitled_element, example_element]" "[]" "[]"]
  by (simp add: example_body_elements example_element_valid example_untitled_element_rejected)


section \<open>The output of a cycle\<close>

lemma emitted_normalize: "emitted (snd (normalize rt elements con)) = emitted con"
  by (simp add: normalize_def Let_def emitted_append split: sum.splits)

lemma emitted_checkPromotions: "emitted (snd (checkPromotions rt fetched con)) = emitted con"
proof (cases fetched)
  case (FetchRejects e)
  then show ?thesis by (simp add: checkPromotions_def tryBody_def emitted_append)
next
  case (FetchResolves res)
  have "emitted (snd (tryBody rt (FetchResolves res) con)) = emitted con"
    by (simp add: tryBody_def emitted_append emitted_normalize split: sum.splits)
  then show ?thesis
    unfolding FetchResolves checkPromotions_def
    by (cases "tryBody rt (FetchResolves res) con"; cases "fst (tryBody rt (FetchResolves res) con)")
       (simp_all add: emitted_append)
qed

lemma emitted_handlePromotions:
  "emitted (snd (handlePromotions rt now fetched con))
     = emitted con @ (case fst (checkPromotions rt fetched con) of
                        Inr (Some ps) \<Rightarrow> [\<lparr>updatedAt = now, promotions = ps\<rparr>]
                      | _ \<Rightarrow> [])"
  by (simp add: handlePromotions_cases emitted_append emitted_checkPromotions
      split: sum.splits option.splits)

text \<open>
  Claim C6: when no element of the batch has a promotion, \<^verbatim>\<open>checkPromotions\<close>
  returns \<^verbatim>\<open>None\<close> and not an error, and \<^verbatim>\<open>handlePromotions\<close> emits no output;
  and whenever a cycle emits an output, \<^verbatim>\<open>checkPromotions\<close> returned \<^verbatim>\<open>Some\<close>
  of a non-empty list, which is the list of that one output.
\<close>

theorem no_valid_promotion_no_output:
  "(searchStoreElements body = Inr (JArr es) \<and> list_all (\<lambda>x. promotionOf rt x = None) es \<longrightarrow>
      fst (checkPromotions rt (FetchResolves \<lparr>ok = True, headers = h, json = Inr body\<rparr>) con)
        = Inr None
      \<and> emitted (snd (handlePromotions rt now
           (FetchResolves \<lparr>ok = True, headers = h, json = Inr body\<rparr>) con)) = emitted con)
   \<and> (emitted (snd (handlePromotions rt now fetched con)) \<noteq> emitted con \<longrightarrow>
        (\<exists>ps. ps \<noteq> [] \<and> fst (checkPromotions rt fetched con) = Inr (Some ps)
           \<and> emitted (snd (handlePromotions rt now fetched con))
               = emitted con @ [\<lparr>updatedAt = now, promotions = ps\<rparr>]))"
proof -
  have rejected: "fst (checkPromotions rt
        (FetchResolves \<lparr>ok = True, headers = h, json = Inr body\<rparr>) con) = Inr None
      \<and> emitted (snd (handlePromotions rt now
           (FetchResolves \<lparr>ok = True, headers = h, json = Inr body\<rparr>) con)) = emitted con"
    if "searchStoreElements body = Inr (JArr es)"
      and "list_all (\<lambda>x. promotionOf rt x = None) es"
  proof -
    from checkPromotions_no_promotion [OF that]
    have "fst (checkPromotions rt
        (FetchResolves \<lparr>ok = True, headers = h, json = Inr body\<rparr>) con) = Inr None" .
    then show ?thesis by (simp add: emitted_handlePromotions)
  qed
  have only: "\<exists>ps. ps \<noteq> [] \<and> fst (checkPromotions rt fetched con) = Inr (Some ps)
           \<and> emitted (snd (handlePromotions rt now fetched con))
               = emitted con @ [\<lparr>updatedAt = now, promotions = ps\<rparr>]"
    if out: "emitted (snd (handlePromotions rt now fetched con)) \<noteq> emitted con"
  proof -
    from out obtain ps where ps: "fst (checkPromotions rt fetched con) = Inr (Some ps)"
      by (auto simp: emitted_handlePromotions split: sum.splits option.splits)
    from checkPromotions_Some [OF ps]
    obtain rs :: "(Promotion, zod_issue list) Result list"
      where "filter isOk rs \<noteq> []" "ps = okValues rs"
      by blast
    then have "ps \<noteq> []" by (simp add: okValues_Nil_iff)
    with ps show ?thesis by (simp add: emitted_handlePromotions)
  qed
  from rejected only show ?thesis by blast
qed

theorem no_valid_promotion_no_output_witness:
  "searchStoreElements (example_body [example_untitled_element, example_no_window_element])
     = Inr (JArr [example_untitled_element, example_no_window_element])
   \<and> list_all (\<lambda>x. promotionOf example_runtime x = None)
       [example_untitled_element, example_no_window_element]
   \<and> fst (checkPromotions example_runtime
        (FetchResolves \<lparr>ok = True, headers = [],
           json = Inr (example_body [example_untitled_element, example_no_window_element])\<rparr>) [])
       = Inr None
   \<and> emitted (snd (handlePromotions example_runtime 0
        (FetchResolves \<lparr>ok = True, headers = [],
           json = Inr (example_body [example_untitled_element, example_no_window_element])\<rparr>) []))
       = emitted []
   \<and> emitted (snd (handlePromotions example_runtime 0 (example_response [example_element]) []))
       \<noteq> emitted []
   \<and> fst (checkPromotions example_runtime (example_response [example_element]) [])
       = Inr (Some [example_promotion])
   \<and> emitted (snd (handlePromotions example_runtime 0 (example_response [example_element]) []))
       = emitted [] @ [\<lparr>updatedAt = 0, promotions = [example_promotion]\<rparr>]"
proof -
  have n: "promotionOf example_runtime example_untitled_element = None"
    "promotionOf example_runtime example_no_window_element = None"
    by (simp_all add: promotionOf_def example_untitled_element_rejected
        example_no_window_element_throws)
  have c: "fst (checkPromotions example_runtime (example_response [example_element]) [])
       = Inr (Some [example_promotion])"
    by (simp add: eval_defs)
  have o: "emitted (snd (handlePromotions example_runtime 0
       (example_response [example_element]) []))
       = [\<lparr>updatedAt = 0, promotions = [example_promotion]\<rparr>]"
    by (simp add: eval_defs)
  from no_valid_promotion_no_output [where rt = example_runtime
      and body = "example_body [example_untitled_element, example_no_window_element]"
      and es = "[example_untitled_element, example_no_window_element]"
      and h = "[]" and con = "[]" and now = 0
      and fetched = "example_response [example_element]"]
  show ?thesis
    by (simp add: n c o example_body_elements)
qed

section \<open>The invariant of a promotion\<close>

lemma toPromotion_Ok:
  "toPromotion rt promo = Inr (Ok p) \<Longrightarrow> promotion_invariant rt (props_of p)"
  by (auto simp: toPromotion_def and_then_def split: sum.splits dest!: Promotion_New_Ok)

lemma okValues_invariant:
  "map_outcome (toPromotion rt) es = Inr rs \<Longrightarrow>
   list_all (\<lambda>p. promotion_invariant rt (props_of p)) (okValues rs)"
proof (induction es arbitrary: rs)
  case Nil
  then show ?case by simp
next
  case (Cons x xs)
  from Cons.prems obtain r rs' where r: "toPromotion rt x = Inr r"
    and rs': "map_outcome (toPromotion rt) xs = Inr rs'" and eq: "rs = r # rs'"
    by (auto split: sum.splits)
  from Cons.IH [OF rs'] have ih: "list_all (\<lambda>p. promotion_invariant rt (props_of p)) (okValues rs')" .
  show ?case
  proof (cases r)
    case (Ok p)
    with r have "promotion_invariant rt (props_of p)" by (simp add: toPromotion_Ok)
    with Ok ih eq show ?thesis by simp
  next
    case (Err e)
    with ih eq show ?thesis by simp
  qed
qed

text \<open>
  Claim C7: \<^verbatim>\<open>Promotion.New\<close> returns an instance exactly for the props that satisfy
  the invariant (title and description are strings, the url parses as an absolute URL,
  the two dates are valid timestamps) and an error with at least one issue for all
  others; an instance it returns has the props it was given; and every promotion that
  \<^verbatim>\<open>checkPromotions\<close> returns satisfies the invariant.
\<close>

theorem Promotion_New_validates:
  "(promotion_invariant rt props \<longrightarrow> Promotion_New rt props = Ok (NewPromotion props))
   \<and> (\<not> promotion_invariant rt props \<longrightarrow>
        (\<exists>issues. issues \<noteq> [] \<and> Promotion_New rt props = Err issues))
   \<and> (Promotion_New rt props = Ok p \<longrightarrow>
        props_of p = props \<and> promotion_invariant rt (props_of p))
   \<and> (fst (checkPromotions rt fetched con) = Inr (Some ps) \<longrightarrow>
        list_all (\<lambda>p. promotion_invariant rt (props_of p)) ps)"
proof -
  have a: "promotion_invariant rt props \<longrightarrow> Promotion_New rt props = Ok (NewPromotion props)"
    by (simp add: Promotion_New_def promotionScheme_Nil_iff)
  have b: "\<not> promotion_invariant rt props \<longrightarrow>
        (\<exists>issues. issues \<noteq> [] \<and> Promotion_New rt props = Err issues)"
    by (simp add: Promotion_New_def promotionScheme_Nil_iff Let_def)
  have c: "Promotion_New rt props = Ok p \<longrightarrow>
        props_of p = props \<and> promotion_invariant rt (props_of p)"
    by (auto dest: Promotion_New_Ok)
  have d: "fst (checkPromotions rt fetched con) = Inr (Some ps) \<longrightarrow>
        list_all (\<lambda>p. promotion_invariant rt (props_of p)) ps"
  proof
    assume s: "fst (checkPromotions rt fetched con) = Inr (Some ps)"
    from checkPromotions_Some [OF s] obtain es rs
      where "map_outcome (toPromotion rt) es = Inr rs" "ps = okValues rs"
      by blast
    then show "list_all (\<lambda>p. promotion_invariant rt (props_of p)) ps"
      by (simp add: okValues_invariant)
  qed
  from a b c d show ?thesis by blast
qed

theorem Promotion_New_validates_witness:
  "promotion_invariant example_runtime (props_of example_promotion)
   \<and> Promotion_New example_runtime (props_of example_promotion) = Ok example_promotion
   \<and> props_of example_promotion = props_of example_promotion
   \<and> \<not> promotion_invariant example_runtime
         ((props_of example_promotion)\<lparr>title := JUndefined, endDate := JDate None\<rparr>)
   \<and> Promotion_New example_runtime
         ((props_of example_promotion)\<lparr>title := JUndefined, endDate := JDate None\<rparr>)
       = Err [(''title'', invalid_type), (''endDate'', invalid_date)]
   \<and> fst (checkPromotions example_runtime (example_response [example_element]) [])
       = Inr (Some [example_promotion])
   \<and> list_all (\<lambda>p. promotion_invariant example_runtime (props_of p)) [example_promotion]"
proof -
  have v: "promotion_invariant example_runtime (props_of example_promotion)"
    by (simp add: promotion_invariant_def is_string_def is_absolute_url_def
        is_valid_timestamp_def example_promotion_def example_runtime_def)
  have i: "\<not> promotion_invariant example_runtime
         ((props_of example_promotion)\<lparr>title := JUndefined, endDate := JDate None\<rparr>)"
    by (simp add: promotion_invariant_def is_string_def)
  have e: "Promotion_New example_runtime
         ((props_of example_promotion)\<lparr>title := JUndefined, endDate := JDate None\<rparr>)
       = Err [(''title'', invalid_type), (''endDate'', invalid_date)]"
    by (simp add: eval_defs)
  have c: "fst (checkPromotions example_runtime (example_response [example_element]) [])
       = Inr (Some [example_promotion])"
    by (simp add: eval_defs)
  note valid = Promotion_New_validates [where rt = example_runtime
      and props = "props_of example_promotion" and p = example_promotion
      and fetched = "example_response [example_element]" and con = "[]"
      and ps = "[example_promotion]"]
  note invalid = Promotion_New_validates [where rt = example_runtime
      and props = "(props_of example_promotion)\<lparr>title := JUndefined, endDate := JDate None\<rparr>"
      and p = example_promotion
      and fetched = "example_response [example_element]" and con = "[]"
      and ps = "[example_promotion]"]
  from valid v
  have "Promotion_New example_runtime (props_of example_promotion)
      = Ok (NewPromotion (props_of example_promotion))"
    by blast
  then have n: "Promotion_New example_runtime (props_of example_promotion) = Ok example_promotion"
    by simp
  from valid c
  have l: "list_all (\<lambda>p. promotion_invariant example_runtime (props_of p)) [example_promotion]"
    by blast
  from invalid i
  have "\<exists>issues. issues \<noteq> [] \<and> Promotion_New example_runtime
      ((props_of example_promotion)\<lparr>title := JUndefined, endDate := JDate None\<rparr>)
      = Err issues"
    by blast
  with v n l i e c show ?thesis
    by blast
qed

section \<open>Determinism\<close>










end
